theory Spec2Isabelle
  imports Main "HOL-Library.Word" "HOL-Library.AList"
begin

section \<open>JavaScript strings\<close>

text \<open>
  A JavaScript string is a sequence of UTF-16 code units; \<open>length\<close>, \<open>trim\<close>, \<open>split\<close>
  and regular expressions without the \<open>u\<close> flag all work on code units.
\<close>

type_synonym code_unit = "16 word"

type_synonym jsstring = "code_unit list"

text \<open>An ASCII literal of the source, as code units.\<close>

definition js :: "string \<Rightarrow> jsstring" where
  "js = map of_char"

text \<open>
  ECMAScript WhiteSpace and LineTerminator: what \<open>\s\<close> matches and what \<open>trim()\<close>
  strips (TAB, LF, VT, FF, CR, SP, NBSP, U+1680, U+2000..U+200A, LS, PS, U+202F, U+205F,
  U+3000, U+FEFF).
\<close>

definition is_whitespace :: "code_unit \<Rightarrow> bool" where
  "is_whitespace c \<longleftrightarrow>
     (0x09 \<le> c \<and> c \<le> 0x0D) \<or> c = 0x20 \<or> c = 0xA0 \<or> c = 0x1680 \<or>
     (0x2000 \<le> c \<and> c \<le> 0x200A) \<or> c = 0x2028 \<or> c = 0x2029 \<or> c = 0x202F \<or>
     c = 0x205F \<or> c = 0x3000 \<or> c = 0xFEFF"

definition at_sign :: code_unit where
  "at_sign = 0x40"

definition full_stop :: code_unit where
  "full_stop = 0x2E"

text \<open>\<open>String.prototype.trim\<close>.\<close>

definition trim :: "jsstring \<Rightarrow> jsstring" where
  "trim s = rev (dropWhile is_whitespace (rev (dropWhile is_whitespace s)))"

text \<open>
  \<open>String.prototype.split\<close> with a separator of one code unit: the pieces between the
  occurrences of the separator, so one piece more than there are occurrences.
\<close>

fun split :: "code_unit \<Rightarrow> jsstring \<Rightarrow> jsstring list" where
  "split sep [] = [[]]"
| "split sep (c # cs) =
     (if c = sep then [] # split sep cs
      else (c # hd (split sep cs)) # tl (split sep cs))"

text \<open>\<open>Number.prototype.toString\<close> of a non-negative integer (used by string concatenation).\<close>

definition digit_unit :: "nat \<Rightarrow> code_unit" where
  "digit_unit d = of_nat (48 + d)"

fun number_toString :: "nat \<Rightarrow> jsstring" where
  "number_toString n =
     (if n < 10 then [digit_unit n]
      else number_toString (n div 10) @ [digit_unit (n mod 10)])"

declare number_toString.simps [simp del]

section \<open>Regular expressions\<close>

text \<open>
  The fragment of JavaScript regular expressions the validation module uses: character
  classes, concatenation and repetition. A pattern is run by taking its derivative along
  the input. \<open>regex_match\<close> is \<open>test\<close> for a pattern between \<open>^\<close> and \<open>$\<close>;
  \<open>regex_search\<close> is \<open>test\<close> for a pattern without anchors, which may match anywhere.
\<close>

datatype regex =
    Never
  | Empty
  | Class "code_unit \<Rightarrow> bool"
  | Alt regex regex
  | Seq regex regex
  | Many regex

definition Many1 :: "regex \<Rightarrow> regex" where
  "Many1 r = Seq r (Many r)"

fun nullable :: "regex \<Rightarrow> bool" where
  "nullable Never = False"
| "nullable Empty = True"
| "nullable (Class p) = False"
| "nullable (Alt a b) = (nullable a \<or> nullable b)"
| "nullable (Seq a b) = (nullable a \<and> nullable b)"
| "nullable (Many a) = True"

fun deriv :: "code_unit \<Rightarrow> regex \<Rightarrow> regex" where
  "deriv c Never = Never"
| "deriv c Empty = Never"
| "deriv c (Class p) = (if p c then Empty else Never)"
| "deriv c (Alt a b) = Alt (deriv c a) (deriv c b)"
| "deriv c (Seq a b) =
     (if nullable a then Alt (Seq (deriv c a) b) (deriv c b) else Seq (deriv c a) b)"
| "deriv c (Many a) = Seq (deriv c a) (Many a)"

fun regex_match :: "regex \<Rightarrow> jsstring \<Rightarrow> bool" where
  "regex_match r [] = nullable r"
| "regex_match r (c # cs) = regex_match (deriv c r) cs"

definition anything :: regex where
  "anything = Many (Class (\<lambda>c. True))"

definition regex_search :: "regex \<Rightarrow> jsstring \<Rightarrow> bool" where
  "regex_search r s = regex_match (Seq anything (Seq r anything)) s"

text \<open>The words matched by a pattern, for reasoning about \<open>regex_match\<close>.\<close>

inductive_set repeat :: "'a list set \<Rightarrow> 'a list set" for A :: "'a list set" where
  repeat_nil: "[] \<in> repeat A"
| repeat_more: "u \<in> A \<Longrightarrow> v \<in> repeat A \<Longrightarrow> u @ v \<in> repeat A"

definition concat_lang :: "'a list set \<Rightarrow> 'a list set \<Rightarrow> 'a list set" where
  "concat_lang A B = {u @ v | u v. u \<in> A \<and> v \<in> B}"

fun lang :: "regex \<Rightarrow> jsstring set" where
  "lang Never = {}"
| "lang Empty = {[]}"
| "lang (Class p) = {[c] | c. p c}"
| "lang (Alt a b) = lang a \<union> lang b"
| "lang (Seq a b) = concat_lang (lang a) (lang b)"
| "lang (Many a) = repeat (lang a)"

section \<open>Validation module (components/button.tsx)\<close>

text \<open>The class \<open>[^\s@]\<close>.\<close>

definition not_space_or_at :: "code_unit \<Rightarrow> bool" where
  "not_space_or_at c \<longleftrightarrow> \<not> (is_whitespace c \<or> c = at_sign)"

text \<open>\<open>/^[^\s@]+@[^\s@]+\.[^\s@]+$/\<close>\<close>

definition emailRegex :: regex where
  "emailRegex =
     Seq (Many1 (Class not_space_or_at))
       (Seq (Class (\<lambda>c. c = at_sign))
         (Seq (Many1 (Class not_space_or_at))
           (Seq (Class (\<lambda>c. c = full_stop))
             (Many1 (Class not_space_or_at)))))"

definition isValidEmail :: "jsstring \<Rightarrow> bool" where
  "isValidEmail email = regex_match emailRegex email"

text \<open>The classes \<open>[A-Z]\<close>, \<open>[a-z]\<close>, \<open>\d\<close> and the class of special characters.\<close>

definition upper_class :: "code_unit \<Rightarrow> bool" where
  "upper_class c \<longleftrightarrow> 0x41 \<le> c \<and> c \<le> 0x5A"

definition lower_class :: "code_unit \<Rightarrow> bool" where
  "lower_class c \<longleftrightarrow> 0x61 \<le> c \<and> c \<le> 0x7A"

definition digit_class :: "code_unit \<Rightarrow> bool" where
  "digit_class c \<longleftrightarrow> 0x30 \<le> c \<and> c \<le> 0x39"

text \<open>
  \<open>[!@#$%^&*()_+\-=\[\]{};':"\\|,.<>\/?]\<close>: the members in the order of the source;
  0x27 is the apostrophe, 0x22 the double quote, 0x5C the backslash.
\<close>

definition special_units :: "code_unit list" where
  "special_units =
     js ''!@#$%^&*()_+-=[]{};'' @ [0x27] @ js '':'' @ [0x22, 0x5C] @ js ''|,.<>/?''"

definition special_class :: "code_unit \<Rightarrow> bool" where
  "special_class c \<longleftrightarrow> c \<in> set special_units"

record PasswordValidation =
  isLengthValid :: bool
  hasUpperCase :: bool
  hasLowerCase :: bool
  hasNumber :: bool
  hasSpecialChar :: bool

definition validatePassword :: "jsstring \<Rightarrow> PasswordValidation" where
  "validatePassword password =
     \<lparr> isLengthValid = (length password \<ge> 8),
       hasUpperCase = regex_search (Class upper_class) password,
       hasLowerCase = regex_search (Class lower_class) password,
       hasNumber = regex_search (Class digit_class) password,
       hasSpecialChar = regex_search (Class special_class) password \<rparr>"

text \<open>The counter \<open>strength\<close> is threaded through the four \<open>if\<close> statements.\<close>

definition getPasswordStrength :: "jsstring \<Rightarrow> nat" where
  "getPasswordStrength password =
     (if password = [] then 0
      else
        let validation = validatePassword password;
            strength = 0;
            strength = (if isLengthValid validation then strength + 1 else strength);
            strength = (if hasUpperCase validation \<and> hasLowerCase validation
                        then strength + 1 else strength);
            strength = (if hasNumber validation then strength + 1 else strength);
            strength = (if hasSpecialChar validation then strength + 1 else strength)
        in min strength 4)"

definition isValidName :: "jsstring \<Rightarrow> bool" where
  "isValidName name = (length (trim name) \<ge> 2)"

text \<open>
  \<open>errors\<close> is an object used as a dictionary: an association list in insertion order,
  \<open>errors.k = v\<close> is \<open>AList.update\<close>, \<open>Object.keys\<close> is \<open>map fst\<close>.
\<close>

type_synonym dictionary = "(jsstring \<times> jsstring) list"

record ValidationResult =
  isValid :: bool
  errors :: dictionary

definition validateSignUpForm :: "jsstring \<Rightarrow> jsstring \<Rightarrow> jsstring \<Rightarrow> ValidationResult" where
  "validateSignUpForm email password name =
     (let errors0 = [];
          errors1 =
            (if trim email = [] then AList.update (js ''email'') (js ''Email is required'') errors0
             else if \<not> isValidEmail email
               then AList.update (js ''email'') (js ''Please enter a valid email'') errors0
             else errors0);
          errors2 =
            (if password = []
               then AList.update (js ''password'') (js ''Password is required'') errors1
             else if length password < 8
               then AList.update (js ''password'')
                      (js ''Password must be at least 8 characters'') errors1
             else errors1);
          errors3 =
            (if trim name = [] then AList.update (js ''name'') (js ''Name is required'') errors2
             else if \<not> isValidName name
               then AList.update (js ''name'') (js ''Name must be at least 2 characters'') errors2
             else errors2)
      in \<lparr> isValid = (length (map fst errors3) = 0), errors = errors3 \<rparr>)"

section \<open>Auth Manager (the context provider with \<open>AuthProvider\<close>)\<close>

record User =
  user_id :: jsstring
  user_email :: jsstring
  user_name :: jsstring

text \<open>
  The state of the provider: \<open>user\<close> (\<open>None\<close> is \<open>null\<close>) and \<open>isLoading\<close>, with the
  initial values given to \<open>useState\<close>. \<open>isSignedIn\<close> is computed from \<open>user\<close> on every
  render.
\<close>

record AuthState =
  user :: "User option"
  isLoading :: bool

definition initialState :: AuthState where
  "initialState = \<lparr> user = None, isLoading = True \<rparr>"

definition isSignedIn :: "AuthState \<Rightarrow> bool" where
  "isSignedIn a \<longleftrightarrow> user a \<noteq> None"

text \<open>
  What can be thrown: an \<open>Error\<close> made by the provider itself with its message, the
  rejection of an AsyncStorage promise, and the \<open>SyntaxError\<close> of \<open>JSON.parse\<close>.
\<close>

datatype js_error =
    Error jsstring
  | StorageRejection jsstring
  | SyntaxError jsstring

text \<open>
  The platform the provider runs on is a parameter: AsyncStorage over a store of type
  \<open>'s\<close>, where every operation either rejects or resolves and leaves a new store;
  \<open>JSON.parse\<close>, which throws or returns a value (\<open>None\<close> is \<open>null\<close>; the value is typed
  as the source types it, \<open>User | null\<close>); \<open>JSON.stringify\<close>; the string of
  \<open>Math.random()\<close> and the value of \<open>Date.now()\<close> at the call.
\<close>

record 's Platform =
  getItem :: "jsstring \<Rightarrow> 's \<Rightarrow> (jsstring + jsstring option) \<times> 's"
  multiSet :: "(jsstring \<times> jsstring) list \<Rightarrow> 's \<Rightarrow> (jsstring + unit) \<times> 's"
  multiRemove :: "jsstring list \<Rightarrow> 's \<Rightarrow> (jsstring + unit) \<times> 's"
  JSON_parse :: "jsstring \<Rightarrow> jsstring + User option"
  JSON_stringify :: "User \<Rightarrow> jsstring"
  Math_random_toString :: jsstring
  Date_now :: nat

text \<open>A value of type \<open>string | null\<close> is truthy when it is a non-empty string.\<close>

definition truthy :: "jsstring option \<Rightarrow> bool" where
  "truthy v = (case v of None \<Rightarrow> False | Some s \<Rightarrow> s \<noteq> [])"

text \<open>
  \<open>bootstrapAsync\<close>: every exception of the \<open>try\<close> block is caught (and logged), and the
  \<open>finally\<close> block runs on every path. \<open>JSON.parse\<close> is reached with a truthy
  \<open>userData\<close> only, which is a string.
\<close>

definition bootstrap_try :: "'s Platform \<Rightarrow> AuthState \<times> 's \<Rightarrow> (js_error + unit) \<times> AuthState \<times> 's" where
  "bootstrap_try P = (\<lambda>(a, s).
     case getItem P (js ''authToken'') s of
       (Inl e, s1) \<Rightarrow> (Inl (StorageRejection e), a, s1)
     | (Inr token, s1) \<Rightarrow>
        (case getItem P (js ''userData'') s1 of
           (Inl e, s2) \<Rightarrow> (Inl (StorageRejection e), a, s2)
         | (Inr userData, s2) \<Rightarrow>
            (if truthy token \<and> truthy userData then
               (case userData of
                  None \<Rightarrow> (Inr (), a, s2)
                | Some text \<Rightarrow>
                   (case JSON_parse P text of
                      Inl e \<Rightarrow> (Inl (SyntaxError e), a, s2)
                    | Inr v \<Rightarrow> (Inr (), a\<lparr>user := v\<rparr>, s2)))
             else (Inr (), a, s2))))"

definition bootstrapAsync :: "'s Platform \<Rightarrow> AuthState \<times> 's \<Rightarrow> AuthState \<times> 's" where
  "bootstrapAsync P w =
     (case bootstrap_try P w of (r, a, s) \<Rightarrow> (a\<lparr>isLoading := False\<rparr>, s))"

text \<open>
  The four operations have the same frame: \<open>setIsLoading(true)\<close>, the \<open>try\<close> block, a
  \<open>catch\<close> that throws the error again, and \<open>setIsLoading(false)\<close> in \<open>finally\<close>. The
  result is the state left behind together with \<open>Inl\<close> of the error thrown to the caller
  or \<open>Inr ()\<close>. The simulated network delay changes no state.
\<close>

definition framed ::
  "(AuthState \<times> 's \<Rightarrow> (js_error + unit) \<times> AuthState \<times> 's) \<Rightarrow>
   AuthState \<times> 's \<Rightarrow> (js_error + unit) \<times> AuthState \<times> 's" where
  "framed body = (\<lambda>(a, s).
     case body (a\<lparr>isLoading := True\<rparr>, s) of
       (r, a', s') \<Rightarrow> (r, a'\<lparr>isLoading := False\<rparr>, s'))"

definition mockUser_login :: "'s Platform \<Rightarrow> jsstring \<Rightarrow> User" where
  "mockUser_login P email =
     \<lparr> user_id = Math_random_toString P,
       user_email = email,
       user_name = hd (split at_sign email) \<rparr>"

definition session_pairs :: "'s Platform \<Rightarrow> User \<Rightarrow> (jsstring \<times> jsstring) list" where
  "session_pairs P mockUser =
     [(js ''authToken'', js ''mock-token-'' @ number_toString (Date_now P)),
      (js ''userData'', JSON_stringify P mockUser)]"

definition login_try ::
  "'s Platform \<Rightarrow> jsstring \<Rightarrow> jsstring \<Rightarrow> AuthState \<times> 's \<Rightarrow> (js_error + unit) \<times> AuthState \<times> 's" where
  "login_try P email password = (\<lambda>(a, s).
     if email = [] \<or> password = [] then
       (Inl (Error (js ''Email and password are required'')), a, s)
     else
       let mockUser = mockUser_login P email in
       case multiSet P (session_pairs P mockUser) s of
         (Inl e, s') \<Rightarrow> (Inl (StorageRejection e), a, s')
       | (Inr u, s') \<Rightarrow> (Inr (), a\<lparr>user := Some mockUser\<rparr>, s'))"

definition login ::
  "'s Platform \<Rightarrow> jsstring \<Rightarrow> jsstring \<Rightarrow> AuthState \<times> 's \<Rightarrow> (js_error + unit) \<times> AuthState \<times> 's" where
  "login P email password = framed (login_try P email password)"

definition signUp_try ::
  "'s Platform \<Rightarrow> jsstring \<Rightarrow> jsstring \<Rightarrow> jsstring \<Rightarrow> AuthState \<times> 's \<Rightarrow>
   (js_error + unit) \<times> AuthState \<times> 's" where
  "signUp_try P email password name = (\<lambda>(a, s).
     if email = [] \<or> password = [] \<or> name = [] then
       (Inl (Error (js ''All fields are required'')), a, s)
     else if length password < 8 then
       (Inl (Error (js ''Password must be at least 8 characters'')), a, s)
     else
       let mockUser = \<lparr> user_id = Math_random_toString P, user_email = email, user_name = name \<rparr> in
       case multiSet P (session_pairs P mockUser) s of
         (Inl e, s') \<Rightarrow> (Inl (StorageRejection e), a, s')
       | (Inr u, s') \<Rightarrow> (Inr (), a\<lparr>user := Some mockUser\<rparr>, s'))"

definition signUp ::
  "'s Platform \<Rightarrow> jsstring \<Rightarrow> jsstring \<Rightarrow> jsstring \<Rightarrow> AuthState \<times> 's \<Rightarrow>
   (js_error + unit) \<times> AuthState \<times> 's" where
  "signUp P email password name = framed (signUp_try P email password name)"

definition logout_try :: "'s Platform \<Rightarrow> AuthState \<times> 's \<Rightarrow> (js_error + unit) \<times> AuthState \<times> 's" where
  "logout_try P = (\<lambda>(a, s).
     case multiRemove P [js ''authToken'', js ''userData''] s of
       (Inl e, s') \<Rightarrow> (Inl (StorageRejection e), a, s')
     | (Inr u, s') \<Rightarrow> (Inr (), a\<lparr>user := None\<rparr>, s'))"

definition logout :: "'s Platform \<Rightarrow> AuthState \<times> 's \<Rightarrow> (js_error + unit) \<times> AuthState \<times> 's" where
  "logout P = framed (logout_try P)"

definition resetPassword_try ::
  "'s Platform \<Rightarrow> jsstring \<Rightarrow> AuthState \<times> 's \<Rightarrow> (js_error + unit) \<times> AuthState \<times> 's" where
  "resetPassword_try P email = (\<lambda>(a, s).
     if email = [] then (Inl (Error (js ''Email is required'')), a, s)
     else (Inr (), a, s))"

definition resetPassword ::
  "'s Platform \<Rightarrow> jsstring \<Rightarrow> AuthState \<times> 's \<Rightarrow> (js_error + unit) \<times> AuthState \<times> 's" where
  "resetPassword P email = framed (resetPassword_try P email)"

text \<open>What an operation leaves behind: the result given to the caller, the state, the store.\<close>

definition outcome :: "(js_error + unit) \<times> AuthState \<times> 's \<Rightarrow> js_error + unit" where
  "outcome r = fst r"

definition state_after :: "(js_error + unit) \<times> AuthState \<times> 's \<Rightarrow> AuthState" where
  "state_after r = fst (snd r)"

definition store_after :: "(js_error + unit) \<times> AuthState \<times> 's \<Rightarrow> 's" where
  "store_after r = snd (snd r)"

definition failed :: "(js_error + unit) \<times> AuthState \<times> 's \<Rightarrow> bool" where
  "failed r = (case outcome r of Inl e \<Rightarrow> True | Inr u \<Rightarrow> False)"

section \<open>Two platforms to run the provider on\<close>

text \<open>
  An in-memory AsyncStorage that never rejects, with a \<open>JSON.stringify\<close> that is exact for
  users whose fields need no escaping and a \<open>JSON.parse\<close> that knows the text \<open>null\<close>
  and throws on everything else (it is only run on texts that are not JSON); and an
  AsyncStorage whose every operation rejects.
\<close>

definition quoted :: "jsstring \<Rightarrow> jsstring" where
  "quoted s = [0x22] @ s @ [0x22]"

definition stringify_User :: "User \<Rightarrow> jsstring" where
  "stringify_User u =
     js ''{'' @ quoted (js ''id'') @ js '':'' @ quoted (user_id u) @ js '','' @
     quoted (js ''email'') @ js '':'' @ quoted (user_email u) @ js '','' @
     quoted (js ''name'') @ js '':'' @ quoted (user_name u) @ js ''}''"

definition parse_null_only :: "jsstring \<Rightarrow> jsstring + User option" where
  "parse_null_only t = (if t = js ''null'' then Inr None else Inl (js ''Unexpected token''))"

definition memoryPlatform :: "dictionary Platform" where
  "memoryPlatform =
     \<lparr> getItem = (\<lambda>k s. (Inr (map_of s k), s)),
       multiSet = (\<lambda>pairs s. (Inr (), fold (\<lambda>(k, v). AList.update k v) pairs s)),
       multiRemove = (\<lambda>keys s. (Inr (), fold AList.delete keys s)),
       JSON_parse = parse_null_only,
       JSON_stringify = stringify_User,
       Math_random_toString = js ''0.5'',
       Date_now = 1730 \<rparr>"

definition failingPlatform :: "dictionary Platform" where
  "failingPlatform =
     \<lparr> getItem = (\<lambda>k s. (Inl (js ''storage unavailable''), s)),
       multiSet = (\<lambda>pairs s. (Inl (js ''storage unavailable''), s)),
       multiRemove = (\<lambda>keys s. (Inl (js ''storage unavailable''), s)),
       JSON_parse = parse_null_only,
       JSON_stringify = stringify_User,
       Math_random_toString = js ''0.5'',
       Date_now = 1730 \<rparr>"

definition alice :: User where
  "alice = \<lparr> user_id = js ''0.25'', user_email = js ''alice@example.com'', user_name = js ''alice'' \<rparr>"

section \<open>The specification's wording\<close>

text \<open>
  The shape of an address as the specification words it: one or more characters that are
  neither whitespace nor \<open>@\<close>, then \<open>@\<close>, then one or more such characters, then a
  full stop, then one or more such characters.
\<close>

definition plain_part :: "jsstring \<Rightarrow> bool" where
  "plain_part x \<longleftrightarrow> x \<noteq> [] \<and> (\<forall>c \<in> set x. \<not> is_whitespace c \<and> c \<noteq> at_sign)"

definition email_shape :: "jsstring \<Rightarrow> bool" where
  "email_shape s \<longleftrightarrow>
     (\<exists>l d t. s = l @ [at_sign] @ d @ [full_stop] @ t \<and> plain_part l \<and> plain_part d \<and> plain_part t)"

text \<open>
  The strength as the specification words it: the number of satisfied signals among the
  four, at most 4, and 0 for the empty password.
\<close>

definition passwordStrength_spec :: "jsstring \<Rightarrow> nat" where
  "passwordStrength_spec p =
     (if p = [] then 0
      else min 4 (length (filter (\<lambda>b. b)
             [length p \<ge> 8,
              (\<exists>c \<in> set p. upper_class c) \<and> (\<exists>c \<in> set p. lower_class c),
              \<exists>c \<in> set p. digit_class c,
              \<exists>c \<in> set p. c \<in> set special_units])))"

text \<open>The error of each field of the sign-up form as the specification words it.\<close>

definition email_error_spec :: "jsstring \<Rightarrow> jsstring option" where
  "email_error_spec email =
     (if trim email = [] then Some (js ''Email is required'')
      else if \<not> isValidEmail email then Some (js ''Please enter a valid email'')
      else None)"

definition password_error_spec :: "jsstring \<Rightarrow> jsstring option" where
  "password_error_spec password =
     (if password = [] then Some (js ''Password is required'')
      else if length password < 8 then Some (js ''Password must be at least 8 characters'')
      else None)"

definition name_error_spec :: "jsstring \<Rightarrow> jsstring option" where
  "name_error_spec name =
     (if trim name = [] then Some (js ''Name is required'')
      else if length (trim name) < 2 then Some (js ''Name must be at least 2 characters'')
      else None)"
section \<open>Properties\<close>

subsection \<open>Regular expressions: the derivative matcher decides the language\<close>

lemma nil_in_concat_lang: "[] \<in> concat_lang A B \<longleftrightarrow> [] \<in> A \<and> [] \<in> B"
  by (auto simp: concat_lang_def)

lemma nullable_lang: "nullable r \<longleftrightarrow> [] \<in> lang r"
  by (induction r) (auto simp: nil_in_concat_lang intro: repeat.repeat_nil)

lemma cons_in_concat_lang:
  "c # w \<in> concat_lang A B \<longleftrightarrow>
     ([] \<in> A \<and> c # w \<in> B) \<or> (\<exists>u v. w = u @ v \<and> c # u \<in> A \<and> v \<in> B)"
  unfolding concat_lang_def
  by (auto simp: Cons_eq_append_conv)

lemma repeat_cons_split:
  assumes "x \<in> repeat A" "x = c # w"
  shows "\<exists>u v. w = u @ v \<and> c # u \<in> A \<and> v \<in> repeat A"
  using assms
proof (induction arbitrary: c w rule: repeat.induct)
  case repeat_nil
  then show ?case by simp
next
  case (repeat_more u v)
  show ?case
  proof (cases u)
    case Nil
    with repeat_more show ?thesis by simp
  next
    case (Cons a u')
    with repeat_more.prems have "c = a" "w = u' @ v" by simp_all
    with Cons repeat_more.hyps show ?thesis by blast
  qed
qed

lemma cons_in_repeat:
  "c # w \<in> repeat A \<longleftrightarrow> (\<exists>u v. w = u @ v \<and> c # u \<in> A \<and> v \<in> repeat A)"
proof
  assume "c # w \<in> repeat A"
  then show "\<exists>u v. w = u @ v \<and> c # u \<in> A \<and> v \<in> repeat A"
    by (rule repeat_cons_split) (rule refl)
next
  assume "\<exists>u v. w = u @ v \<and> c # u \<in> A \<and> v \<in> repeat A"
  then obtain u v where w: "w = u @ v" and u: "c # u \<in> A" and v: "v \<in> repeat A" by blast
  from u v have "(c # u) @ v \<in> repeat A" by (rule repeat.repeat_more)
  with w show "c # w \<in> repeat A" by simp
qed

lemma deriv_lang: "w \<in> lang (deriv c r) \<longleftrightarrow> c # w \<in> lang r"
proof (induction r arbitrary: w)
  case (Seq a b)
  then show ?case
    by (auto simp: cons_in_concat_lang nullable_lang) (auto simp: concat_lang_def)
next
  case (Many a)
  then show ?case
    by (auto simp: cons_in_repeat) (auto simp: concat_lang_def)
qed auto

lemma regex_match_lang: "regex_match r w \<longleftrightarrow> w \<in> lang r"
  by (induction w arbitrary: r) (simp_all add: nullable_lang deriv_lang)

lemma repeat_class: "repeat {[c] | c. p c} = {w. \<forall>c \<in> set w. p c}"
proof (rule set_eqI)
  fix w
  show "w \<in> repeat {[c] | c. p c} \<longleftrightarrow> w \<in> {w. \<forall>c \<in> set w. p c}"
  proof
    assume "w \<in> repeat {[c] | c. p c}"
    then show "w \<in> {w. \<forall>c \<in> set w. p c}"
      by (induction rule: repeat.induct) auto
  next
    assume "w \<in> {w. \<forall>c \<in> set w. p c}"
    then have "\<forall>c \<in> set w. p c" by simp
    then show "w \<in> repeat {[c] | c. p c}"
    proof (induction w)
      case Nil
      show ?case by (rule repeat.repeat_nil)
    next
      case (Cons a w)
      then have "[a] \<in> {[c] | c. p c}" "w \<in> repeat {[c] | c. p c}" by simp_all
      then have "[a] @ w \<in> repeat {[c] | c. p c}" by (rule repeat.repeat_more)
      then show ?case by simp
    qed
  qed
qed

lemma in_concat_lang: "w \<in> concat_lang A B \<longleftrightarrow> (\<exists>u v. w = u @ v \<and> u \<in> A \<and> v \<in> B)"
  unfolding concat_lang_def by blast

lemma class_concat_lang: "concat_lang {[c] | c. p c} B = {c # v | c v. p c \<and> v \<in> B}"
proof (rule set_eqI)
  fix w
  show "w \<in> concat_lang {[c] | c. p c} B \<longleftrightarrow> w \<in> {c # v | c v. p c \<and> v \<in> B}"
  proof
    assume "w \<in> concat_lang {[c] | c. p c} B"
    then obtain u v where "w = u @ v" "u \<in> {[c] | c. p c}" "v \<in> B"
      unfolding in_concat_lang by blast
    then show "w \<in> {c # v | c v. p c \<and> v \<in> B}" by auto
  next
    assume "w \<in> {c # v | c v. p c \<and> v \<in> B}"
    then obtain c v where w: "w = c # v" "p c" "v \<in> B" by blast
    then have "w = [c] @ v" "[c] \<in> {[c] | c. p c}" by auto
    with w show "w \<in> concat_lang {[c] | c. p c} B"
      unfolding in_concat_lang by blast
  qed
qed

lemma lang_Many1_Class: "lang (Many1 (Class p)) = {w. w \<noteq> [] \<and> (\<forall>c \<in> set w. p c)}"
proof (rule set_eqI)
  fix w
  show "w \<in> lang (Many1 (Class p)) \<longleftrightarrow> w \<in> {w. w \<noteq> [] \<and> (\<forall>c \<in> set w. p c)}"
    by (cases w) (simp_all add: Many1_def class_concat_lang repeat_class)
qed

lemma lang_anything: "lang anything = UNIV"
  using repeat_class [of "\<lambda>c. True"] by (simp add: anything_def)

lemma regex_search_Class: "regex_search (Class p) s \<longleftrightarrow> (\<exists>c \<in> set s. p c)"
proof -
  have "s \<in> lang (Seq anything (Seq (Class p) anything)) \<longleftrightarrow> (\<exists>u c v. s = u @ c # v \<and> p c)"
    unfolding lang.simps lang_anything class_concat_lang
    by (simp add: in_concat_lang, blast)
  also have "\<dots> \<longleftrightarrow> (\<exists>c \<in> set s. p c)"
  proof
    assume "\<exists>u c v. s = u @ c # v \<and> p c"
    then show "\<exists>c \<in> set s. p c" by auto
  next
    assume "\<exists>c \<in> set s. p c"
    then obtain c where "c \<in> set s" "p c" by blast
    then show "\<exists>u c v. s = u @ c # v \<and> p c"
      using split_list [of c s] by blast
  qed
  finally show ?thesis
    by (simp add: regex_search_def regex_match_lang)
qed

lemma plain_part_lang: "lang (Many1 (Class not_space_or_at)) = {w. plain_part w}"
  by (auto simp: lang_Many1_Class plain_part_def not_space_or_at_def)

lemma lang_emailRegex:
  "s \<in> lang emailRegex \<longleftrightarrow>
     (\<exists>l v. s = l @ v \<and> plain_part l \<and>
       (\<exists>v'. v = at_sign # v' \<and>
         (\<exists>d v''. v' = d @ v'' \<and> plain_part d \<and> (\<exists>t. v'' = full_stop # t \<and> plain_part t))))"
  unfolding emailRegex_def lang.simps plain_part_lang class_concat_lang
  by (simp add: in_concat_lang)

lemma regex_email_shape: "isValidEmail s \<longleftrightarrow> email_shape s"
proof
  assume "isValidEmail s"
  then have "s \<in> lang emailRegex" by (simp add: isValidEmail_def regex_match_lang)
  then obtain l d t where "s = l @ at_sign # d @ full_stop # t"
    and "plain_part l" "plain_part d" "plain_part t"
    unfolding lang_emailRegex by auto
  then show "email_shape s"
    unfolding email_shape_def by (intro exI [of _ l] exI [of _ d] exI [of _ t]) simp
next
  assume "email_shape s"
  then obtain l d t where s: "s = l @ [at_sign] @ d @ [full_stop] @ t"
    and p: "plain_part l" "plain_part d" "plain_part t"
    unfolding email_shape_def by auto
  have "s \<in> lang emailRegex"
    unfolding lang_emailRegex
    apply (rule exI [of _ l])
    apply (rule exI [of _ "at_sign # d @ full_stop # t"])
    apply (simp add: s p)
    apply (rule exI [of _ d])
    apply (simp add: p)
    done
  then show "isValidEmail s" by (simp add: isValidEmail_def regex_match_lang)
qed

subsection \<open>Validation module\<close>

lemma getPasswordStrength_signals:
  "getPasswordStrength p =
     (if p = [] then 0
      else min 4 (of_bool (length p \<ge> 8)
             + of_bool ((\<exists>c \<in> set p. upper_class c) \<and> (\<exists>c \<in> set p. lower_class c))
             + of_bool (\<exists>c \<in> set p. digit_class c)
             + of_bool (\<exists>c \<in> set p. special_class c)))"
  by (simp add: getPasswordStrength_def validatePassword_def regex_search_Class Let_def)

text \<open>
  Claim C6. For every password, \<open>getPasswordStrength\<close> is 0 on the empty password
  and otherwise the number of satisfied signals among: length at least 8; an upper-case and a
  lower-case letter (one point together); a digit; a special character; at most 4. So
  the result is always between 0 and 4.
\<close>

theorem getPasswordStrength_counts_signals:
  "getPasswordStrength p = passwordStrength_spec p \<and> getPasswordStrength [] = 0 \<and>
   0 \<le> getPasswordStrength p \<and> getPasswordStrength p \<le> 4"
  by (simp add: getPasswordStrength_signals passwordStrength_spec_def special_class_def)

theorem getPasswordStrength_counts_signals_witness:
  "getPasswordStrength (js ''Abcdefg1!'') = 4 \<and> passwordStrength_spec (js ''Abcdefg1!'') = 4"
proof -
  have "getPasswordStrength (js ''Abcdefg1!'') = 4" by code_simp
  with getPasswordStrength_counts_signals [of "js ''Abcdefg1!''"] show ?thesis by simp
qed

lemma min_four_mono:
  "a \<le> a' \<Longrightarrow> b \<le> b' \<Longrightarrow> c \<le> c' \<Longrightarrow> d \<le> d' \<Longrightarrow>
   min 4 (a + b + c + d) \<le> min (4::nat) (a' + b' + c' + d')"
  by linarith

text \<open>
  Claim C10. Appending characters never lowers the strength: every one of the
  four signals that holds for \<open>p\<close> holds for \<open>p @ s\<close>.
\<close>

theorem getPasswordStrength_append_mono: "getPasswordStrength (p @ s) \<ge> getPasswordStrength p"
proof (cases "p = []")
  case True
  then show ?thesis by (simp add: getPasswordStrength_signals)
next
  case False
  let ?A = "\<lambda>p. of_bool (length p \<ge> 8) :: nat"
  let ?B = "\<lambda>p. of_bool ((\<exists>c \<in> set p. upper_class c) \<and> (\<exists>c \<in> set p. lower_class c)) :: nat"
  let ?C = "\<lambda>p. of_bool (\<exists>c \<in> set p. digit_class c) :: nat"
  let ?D = "\<lambda>p. of_bool (\<exists>c \<in> set p. special_class c) :: nat"
  have a: "?A p \<le> ?A (p @ s)" by simp
  have b: "?B p \<le> ?B (p @ s)" by auto
  have c: "?C p \<le> ?C (p @ s)" by auto
  have d: "?D p \<le> ?D (p @ s)" by auto
  have l: "getPasswordStrength p = min 4 (?A p + ?B p + ?C p + ?D p)"
    using False by (simp only: getPasswordStrength_signals if_False)
  have "p @ s \<noteq> []" using False by simp
  then have r: "getPasswordStrength (p @ s) = min 4 (?A (p @ s) + ?B (p @ s) + ?C (p @ s) + ?D (p @ s))"
    by (simp only: getPasswordStrength_signals if_False)
  show ?thesis
    unfolding l r by (rule min_four_mono [OF a b c d])
qed

theorem getPasswordStrength_append_mono_witness:
  "getPasswordStrength (js ''abc'') = 0 \<and> getPasswordStrength (js ''abc'' @ js ''D1!xyzw'') = 4 \<and>
   getPasswordStrength (js ''abc'') \<le> getPasswordStrength (js ''abc'' @ js ''D1!xyzw'')"
proof -
  have "getPasswordStrength (js ''abc'') = 0" by code_simp
  moreover have "getPasswordStrength (js ''abc'' @ js ''D1!xyzw'') = 4" by code_simp
  ultimately show ?thesis
    using getPasswordStrength_append_mono [of "js ''abc''" "js ''D1!xyzw''"] by simp
qed

lemma no_at_no_shape: "at_sign \<notin> set s \<Longrightarrow> \<not> email_shape s"
  by (auto simp: email_shape_def)

lemma isValidEmail_a_b_c: "isValidEmail (js ''a@b.c'')"
  by (simp add: isValidEmail_def emailRegex_def Many1_def js_def not_space_or_at_def
      is_whitespace_def at_sign_def full_stop_def)

lemma isValidEmail_a_b: "\<not> isValidEmail (js ''a@b'')"
  by (simp add: isValidEmail_def emailRegex_def Many1_def js_def not_space_or_at_def
      is_whitespace_def at_sign_def full_stop_def)

text \<open>
  Claim C7. \<open>isValidEmail\<close> accepts exactly the strings of the shape described by the
  specification; a string without \<open>@\<close> is rejected, \<open>a@b.c\<close> is accepted and \<open>a@b\<close> is
  rejected.
\<close>

theorem isValidEmail_shape_iff:
  "(isValidEmail s \<longleftrightarrow> email_shape s) \<and> (at_sign \<notin> set s \<longrightarrow> \<not> isValidEmail s) \<and>
   isValidEmail (js ''a@b.c'') \<and> \<not> isValidEmail (js ''a@b'')"
  using no_at_no_shape [of s] isValidEmail_a_b_c isValidEmail_a_b
  by (simp add: regex_email_shape)

theorem isValidEmail_shape_iff_witness:
  "at_sign \<notin> set (js ''ab.c'') \<and> \<not> isValidEmail (js ''ab.c'') \<and> \<not> email_shape (js ''ab.c'')"
  using isValidEmail_shape_iff [of "js ''ab.c''"] by (auto simp: js_def at_sign_def)

lemma field_keys_distinct:
  "js ''email'' \<noteq> js ''password''" "js ''email'' \<noteq> js ''name''" "js ''password'' \<noteq> js ''name''"
  "js ''password'' \<noteq> js ''email''" "js ''name'' \<noteq> js ''email''" "js ''name'' \<noteq> js ''password''"
  by (simp_all add: js_def)

lemma validateSignUpForm_example_empty:
  "validateSignUpForm [] [] [] =
     \<lparr> isValid = False,
       errors = [(js ''email'', js ''Email is required''),
                 (js ''password'', js ''Password is required''),
                 (js ''name'', js ''Name is required'')] \<rparr>"
  by (simp add: validateSignUpForm_def trim_def field_keys_distinct)

lemma isValidEmail_x_y_com: "isValidEmail (js ''x@y.com'')"
  by (simp add: isValidEmail_def emailRegex_def Many1_def js_def not_space_or_at_def
      is_whitespace_def at_sign_def full_stop_def)

lemma validateSignUpForm_example_valid:
  "validateSignUpForm (js ''x@y.com'') (js ''longpassword'') (js ''Jo'') =
     \<lparr> isValid = True, errors = [] \<rparr>"
proof -
  have "trim (js ''x@y.com'') \<noteq> []" "trim (js ''Jo'') = js ''Jo''"
    by (simp_all add: trim_def js_def is_whitespace_def)
  moreover have "length (js ''longpassword'') = 12" "js ''longpassword'' \<noteq> []" "length (js ''Jo'') = 2"
    "js ''Jo'' \<noteq> []"
    by (simp_all add: js_def)
  ultimately show ?thesis
    by (simp add: validateSignUpForm_def isValidName_def isValidEmail_x_y_com)
qed

lemma validateSignUpForm_lookup:
  "map_of (errors (validateSignUpForm email password name)) (js ''email'') = email_error_spec email"
  "map_of (errors (validateSignUpForm email password name)) (js ''password'') = password_error_spec password"
  "map_of (errors (validateSignUpForm email password name)) (js ''name'') = name_error_spec name"
  by (simp_all add: validateSignUpForm_def Let_def update_conv' field_keys_distinct
      email_error_spec_def password_error_spec_def name_error_spec_def isValidName_def not_le)

lemma validateSignUpForm_keys:
  "fst ` set (errors (validateSignUpForm email password name)) \<subseteq> {js ''email'', js ''password'', js ''name''}"
  by (simp add: validateSignUpForm_def Let_def dom_update flip: dom_map_of_conv_image_fst)

lemma validateSignUpForm_isValid:
  "isValid (validateSignUpForm email password name) \<longleftrightarrow> errors (validateSignUpForm email password name) = []"
  by (simp add: validateSignUpForm_def Let_def)

text \<open>
  Claim C8. \<open>validateSignUpForm\<close> records for each field the error of the
  specification (email: required, then format; password: required, then at least 8
  characters; name: required, then at least 2 characters after trimming) and no other
  key, and \<open>isValid\<close> holds exactly when there is no error. With three empty fields all
  three errors are reported; \<open>x@y.com\<close>, \<open>longpassword\<close>, \<open>Jo\<close> is valid with no error.
\<close>

theorem validateSignUpForm_field_errors:
  "map_of (errors (validateSignUpForm email password name)) (js ''email'') = email_error_spec email \<and>
   map_of (errors (validateSignUpForm email password name)) (js ''password'') = password_error_spec password \<and>
   map_of (errors (validateSignUpForm email password name)) (js ''name'') = name_error_spec name \<and>
   fst ` set (errors (validateSignUpForm email password name)) \<subseteq> {js ''email'', js ''password'', js ''name''} \<and>
   (isValid (validateSignUpForm email password name) \<longleftrightarrow>
      errors (validateSignUpForm email password name) = []) \<and>
   validateSignUpForm [] [] [] =
     \<lparr> isValid = False,
       errors = [(js ''email'', js ''Email is required''),
                 (js ''password'', js ''Password is required''),
                 (js ''name'', js ''Name is required'')] \<rparr> \<and>
   validateSignUpForm (js ''x@y.com'') (js ''longpassword'') (js ''Jo'') =
     \<lparr> isValid = True, errors = [] \<rparr>"
  using validateSignUpForm_lookup [of email password name] validateSignUpForm_keys [of email password name]
    validateSignUpForm_isValid [of email password name]
    validateSignUpForm_example_empty validateSignUpForm_example_valid
  by (simp only: simp_thms)

theorem validateSignUpForm_field_errors_witness:
  "email_error_spec (js ''x y'') = Some (js ''Please enter a valid email'') \<and>
   map_of (errors (validateSignUpForm (js ''x y'') (js ''short'') (js '' J ''))) (js ''email'') =
     Some (js ''Please enter a valid email'') \<and>
   \<not> isValid (validateSignUpForm (js ''x y'') (js ''short'') (js '' J ''))"
proof -
  have v: "\<not> isValidEmail (js ''x y'')"
    by (simp add: isValidEmail_def emailRegex_def Many1_def js_def not_space_or_at_def
      is_whitespace_def at_sign_def full_stop_def)
  have t: "trim (js ''x y'') \<noteq> []"
    by (simp add: trim_def js_def is_whitespace_def)
  have e: "email_error_spec (js ''x y'') = Some (js ''Please enter a valid email'')"
    by (simp add: email_error_spec_def v t)
  with validateSignUpForm_field_errors [of "js ''x y''" "js ''short''" "js '' J ''"] show ?thesis
    by auto
qed

subsection \<open>Auth Manager\<close>

lemmas ops = login_def login_try_def signUp_def signUp_try_def logout_def logout_try_def
  resetPassword_def resetPassword_try_def framed_def outcome_def state_after_def store_after_def failed_def

lemmas platforms = memoryPlatform_def failingPlatform_def

text \<open>
  Claim C1, as stated, fails: when the removal is rejected, \<open>setUser(null)\<close> is never
  reached, and the user signed in before \<open>logout\<close> is still there afterwards.
\<close>

theorem logout_failure_keeps_user:
  "outcome (logout failingPlatform (\<lparr>user = Some alice, isLoading = False\<rparr>, [])) =
     Inl (StorageRejection (js ''storage unavailable'')) \<and>
   user (state_after (logout failingPlatform (\<lparr>user = Some alice, isLoading = False\<rparr>, []))) =
     Some alice"
  by (simp add: ops failingPlatform_def)

text \<open>
  Claim C1, amended. When the removal of the two keys is rejected, \<open>logout\<close> throws the
  rejection to the caller and leaves the user as it was; when the removal resolves, the
  user is absent afterwards. \<open>isLoading\<close> is false afterwards in both cases.
\<close>

theorem logout_clears_user_on_success_only:
  "(fst (multiRemove P [js ''authToken'', js ''userData''] s) = Inl e \<longrightarrow>
      outcome (logout P (a, s)) = Inl (StorageRejection e) \<and>
      user (state_after (logout P (a, s))) = user a \<and>
      isLoading (state_after (logout P (a, s))) = False) \<and>
   (fst (multiRemove P [js ''authToken'', js ''userData''] s) = Inr () \<longrightarrow>
      outcome (logout P (a, s)) = Inr () \<and>
      user (state_after (logout P (a, s))) = None \<and>
      isLoading (state_after (logout P (a, s))) = False)"
  by (auto simp: ops split: prod.splits sum.splits)

theorem logout_clears_user_on_success_only_witness:
  "fst (multiRemove failingPlatform [js ''authToken'', js ''userData''] []) =
     Inl (js ''storage unavailable'') \<and>
   outcome (logout failingPlatform (\<lparr>user = Some alice, isLoading = False\<rparr>, [])) =
     Inl (StorageRejection (js ''storage unavailable'')) \<and>
   user (state_after (logout failingPlatform (\<lparr>user = Some alice, isLoading = False\<rparr>, []))) =
     Some alice \<and>
   fst (multiRemove memoryPlatform [js ''authToken'', js ''userData''] []) = Inr () \<and>
   outcome (logout memoryPlatform (\<lparr>user = Some alice, isLoading = False\<rparr>, [])) = Inr () \<and>
   user (state_after (logout memoryPlatform (\<lparr>user = Some alice, isLoading = False\<rparr>, []))) = None"
  using logout_clears_user_on_success_only [of failingPlatform "[]" "js ''storage unavailable''" "\<lparr>user = Some alice, isLoading = False\<rparr>"]
    logout_clears_user_on_success_only [of memoryPlatform "[]" "js ''storage unavailable''" "\<lparr>user = Some alice, isLoading = False\<rparr>"]
  by (simp add: platforms)

text \<open>
  Claim C2. Each of \<open>login\<close>, \<open>signUp\<close>, \<open>logout\<close> and \<open>resetPassword\<close> leaves
  \<open>isLoading\<close> false on every path, and after a failure the user is the one from before
  the call.
\<close>

theorem operations_restore_state:
  "isLoading (state_after (login P email password (a, s))) = False \<and>
   (failed (login P email password (a, s)) \<longrightarrow>
      user (state_after (login P email password (a, s))) = user a) \<and>
   isLoading (state_after (signUp P email password name (a, s))) = False \<and>
   (failed (signUp P email password name (a, s)) \<longrightarrow>
      user (state_after (signUp P email password name (a, s))) = user a) \<and>
   isLoading (state_after (logout P (a, s))) = False \<and>
   (failed (logout P (a, s)) \<longrightarrow> user (state_after (logout P (a, s))) = user a) \<and>
   isLoading (state_after (resetPassword P email (a, s))) = False \<and>
   (failed (resetPassword P email (a, s)) \<longrightarrow>
      user (state_after (resetPassword P email (a, s))) = user a)"
  by (auto simp: ops Let_def split: prod.splits sum.splits)

theorem operations_restore_state_witness:
  "failed (login failingPlatform (js ''x@y.com'') (js ''longpassword'') (\<lparr>user = Some alice, isLoading = False\<rparr>, [])) \<and>
   user (state_after (login failingPlatform (js ''x@y.com'') (js ''longpassword'')
     (\<lparr>user = Some alice, isLoading = False\<rparr>, []))) = Some alice \<and>
   failed (signUp failingPlatform (js ''x@y.com'') (js ''longpassword'') (js ''Jo'') (\<lparr>user = Some alice, isLoading = False\<rparr>, [])) \<and>
   user (state_after (signUp failingPlatform (js ''x@y.com'') (js ''longpassword'') (js ''Jo'')
     (\<lparr>user = Some alice, isLoading = False\<rparr>, []))) = Some alice \<and>
   failed (logout failingPlatform (\<lparr>user = Some alice, isLoading = False\<rparr>, [])) \<and>
   user (state_after (logout failingPlatform (\<lparr>user = Some alice, isLoading = False\<rparr>, []))) = Some alice \<and>
   failed (resetPassword failingPlatform [] (\<lparr>user = Some alice, isLoading = False\<rparr>, [])) \<and>
   user (state_after (resetPassword failingPlatform [] (\<lparr>user = Some alice, isLoading = False\<rparr>, []))) = Some alice \<and>
   isLoading (state_after (login failingPlatform (js ''x@y.com'') (js ''longpassword'')
     (\<lparr>user = Some alice, isLoading = False\<rparr>, []))) = False"
proof -
  have "js ''x@y.com'' \<noteq> []" "js ''longpassword'' \<noteq> []" "js ''Jo'' \<noteq> []"
    "length (js ''longpassword'') = 12"
    by (simp_all add: js_def)
  then have
    "failed (login failingPlatform (js ''x@y.com'') (js ''longpassword'') (\<lparr>user = Some alice, isLoading = False\<rparr>, []))"
    "failed (signUp failingPlatform (js ''x@y.com'') (js ''longpassword'') (js ''Jo'') (\<lparr>user = Some alice, isLoading = False\<rparr>, []))"
    "failed (logout failingPlatform (\<lparr>user = Some alice, isLoading = False\<rparr>, []))"
    "failed (resetPassword failingPlatform [] (\<lparr>user = Some alice, isLoading = False\<rparr>, []))"
    by (simp_all add: ops platforms)
  then show ?thesis
    using operations_restore_state [of failingPlatform "js ''x@y.com''" "js ''longpassword''" "\<lparr>user = Some alice, isLoading = False\<rparr>" "[]" "js ''Jo''"]
      operations_restore_state [of failingPlatform "[]" "js ''longpassword''" "\<lparr>user = Some alice, isLoading = False\<rparr>" "[]" "js ''Jo''"]
    by simp
qed

text \<open>
  Claim C3. \<open>login\<close> with an empty email or an empty password throws the error
  "Email and password are required", leaves the user unchanged and does not touch the
  store; so do \<open>login("", "x")\<close> and \<open>login("x@y.com", "")\<close>.
\<close>

theorem login_rejects_empty_fields:
  assumes "email = [] \<or> password = []"
  shows "outcome (login P email password (a, s)) = Inl (Error (js ''Email and password are required'')) \<and>
         user (state_after (login P email password (a, s))) = user a \<and>
         store_after (login P email password (a, s)) = s"
  using assms by (auto simp: ops)

theorem login_rejects_empty_fields_witness:
  "outcome (login memoryPlatform [] (js ''x'') (\<lparr>user = Some alice, isLoading = False\<rparr>, [])) =
     Inl (Error (js ''Email and password are required'')) \<and>
   user (state_after (login memoryPlatform [] (js ''x'') (\<lparr>user = Some alice, isLoading = False\<rparr>, []))) =
     Some alice \<and>
   store_after (login memoryPlatform [] (js ''x'') (\<lparr>user = Some alice, isLoading = False\<rparr>, [])) = [] \<and>
   outcome (login memoryPlatform (js ''x@y.com'') [] (\<lparr>user = Some alice, isLoading = False\<rparr>, [])) =
     Inl (Error (js ''Email and password are required'')) \<and>
   user (state_after (login memoryPlatform (js ''x@y.com'') [] (\<lparr>user = Some alice, isLoading = False\<rparr>, []))) =
     Some alice \<and>
   store_after (login memoryPlatform (js ''x@y.com'') [] (\<lparr>user = Some alice, isLoading = False\<rparr>, [])) = []"
  using login_rejects_empty_fields [of "[]" "js ''x''" memoryPlatform "\<lparr>user = Some alice, isLoading = False\<rparr>" "[]"]
    login_rejects_empty_fields [of "js ''x@y.com''" "[]" memoryPlatform "\<lparr>user = Some alice, isLoading = False\<rparr>" "[]"]
  by simp

text \<open>
  Claim C4. Bootstrap fails closed: when the token is present and the user record is
  absent, or the user record is present and \<open>JSON.parse\<close> throws on it, or a read of
  the store is rejected, bootstrap ends with no user (\<open>isSignedIn\<close> false) and
  \<open>isLoading\<close> false.
\<close>

theorem bootstrap_fails_closed:
  assumes "(\<exists>t s1 s2. getItem P (js ''authToken'') s = (Inr (Some t), s1) \<and>
              getItem P (js ''userData'') s1 = (Inr None, s2)) \<or>
           (\<exists>tok s1 ud s2 e. getItem P (js ''authToken'') s = (Inr tok, s1) \<and>
              getItem P (js ''userData'') s1 = (Inr (Some ud), s2) \<and> JSON_parse P ud = Inl e) \<or>
           (\<exists>e s1. getItem P (js ''authToken'') s = (Inl e, s1)) \<or>
           (\<exists>tok s1 e s2. getItem P (js ''authToken'') s = (Inr tok, s1) \<and>
              getItem P (js ''userData'') s1 = (Inl e, s2))"
  shows "user (fst (bootstrapAsync P (initialState, s))) = None \<and>
         \<not> isSignedIn (fst (bootstrapAsync P (initialState, s))) \<and>
         isLoading (fst (bootstrapAsync P (initialState, s))) = False"
  using assms
  by (auto simp: bootstrapAsync_def bootstrap_try_def initialState_def isSignedIn_def truthy_def
      split: prod.splits sum.splits option.splits)

theorem bootstrap_fails_closed_witness:
  "\<not> isSignedIn (fst (bootstrapAsync memoryPlatform (initialState, [(js ''authToken'', js ''tok'')]))) \<and>
   isLoading (fst (bootstrapAsync memoryPlatform (initialState, [(js ''authToken'', js ''tok'')]))) = False \<and>
   \<not> isSignedIn (fst (bootstrapAsync memoryPlatform
       (initialState, [(js ''authToken'', js ''tok''), (js ''userData'', js ''{oops'')]))) \<and>
   isLoading (fst (bootstrapAsync memoryPlatform
       (initialState, [(js ''authToken'', js ''tok''), (js ''userData'', js ''{oops'')]))) = False \<and>
   \<not> isSignedIn (fst (bootstrapAsync failingPlatform
       (initialState, [(js ''authToken'', js ''tok''), (js ''userData'', stringify_User alice)]))) \<and>
   isLoading (fst (bootstrapAsync failingPlatform
       (initialState, [(js ''authToken'', js ''tok''), (js ''userData'', stringify_User alice)]))) = False"
proof -
  have k: "js ''userData'' \<noteq> js ''authToken''" "js ''{oops'' \<noteq> js ''null''"
    by (simp_all add: js_def)
  have 1: "getItem memoryPlatform (js ''authToken'') [(js ''authToken'', js ''tok'')] =
             (Inr (Some (js ''tok'')), [(js ''authToken'', js ''tok'')]) \<and>
           getItem memoryPlatform (js ''userData'') [(js ''authToken'', js ''tok'')] =
             (Inr None, [(js ''authToken'', js ''tok'')])"
    by (simp add: platforms k)
  have 2: "getItem memoryPlatform (js ''authToken'') [(js ''authToken'', js ''tok''), (js ''userData'', js ''{oops'')] =
             (Inr (Some (js ''tok'')), [(js ''authToken'', js ''tok''), (js ''userData'', js ''{oops'')]) \<and>
           getItem memoryPlatform (js ''userData'') [(js ''authToken'', js ''tok''), (js ''userData'', js ''{oops'')] =
             (Inr (Some (js ''{oops'')), [(js ''authToken'', js ''tok''), (js ''userData'', js ''{oops'')]) \<and>
           JSON_parse memoryPlatform (js ''{oops'') = Inl (js ''Unexpected token'')"
    by (simp add: platforms k parse_null_only_def)
  have 3: "getItem failingPlatform (js ''authToken'') [(js ''authToken'', js ''tok''), (js ''userData'', stringify_User alice)] =
             (Inl (js ''storage unavailable''), [(js ''authToken'', js ''tok''), (js ''userData'', stringify_User alice)])"
    by (simp add: platforms)
  from 1 2 3 show ?thesis
    using bootstrap_fails_closed [of memoryPlatform "[(js ''authToken'', js ''tok'')]"]
      bootstrap_fails_closed [of memoryPlatform "[(js ''authToken'', js ''tok''), (js ''userData'', js ''{oops'')]"]
      bootstrap_fails_closed [of failingPlatform "[(js ''authToken'', js ''tok''), (js ''userData'', stringify_User alice)]"]
    by blast
qed

lemma split_not_Nil: "split sep s \<noteq> []"
  by (induction s) auto

lemma hd_split: "hd (split sep s) = takeWhile (\<lambda>c. c \<noteq> sep) s"
  by (induction s) auto

text \<open>
  Claim C5. A login with a non-empty email and a non-empty password that succeeds has
  written the keys \<open>authToken\<close> and \<open>userData\<close> in one \<open>multiSet\<close> and has set the user to
  a record whose email is the given one and whose name is the part of the email before
  the first \<open>@\<close>.
\<close>

theorem login_success_persists_session:
  assumes "email \<noteq> []" and "password \<noteq> []"
    and "outcome (login P email password (a, s)) = Inr ()"
  shows "\<exists>u.
           multiSet P [(js ''authToken'', js ''mock-token-'' @ number_toString (Date_now P)),
                       (js ''userData'', JSON_stringify P u)] s =
             (Inr (), store_after (login P email password (a, s))) \<and>
           user (state_after (login P email password (a, s))) = Some u \<and>
           user_email u = email \<and>
           user_name u = takeWhile (\<lambda>c. c \<noteq> at_sign) email"
  using assms
  by (auto simp: ops Let_def session_pairs_def mockUser_login_def hd_split
      split: prod.splits sum.splits)

theorem login_success_persists_session_witness:
  "js ''x@y.com'' \<noteq> [] \<and> js ''secret'' \<noteq> [] \<and>
   outcome (login memoryPlatform (js ''x@y.com'') (js ''secret'') (initialState, [])) = Inr () \<and>
   (\<exists>u.
      multiSet memoryPlatform
        [(js ''authToken'', js ''mock-token-'' @ number_toString (Date_now memoryPlatform)),
         (js ''userData'', JSON_stringify memoryPlatform u)] [] =
        (Inr (), store_after (login memoryPlatform (js ''x@y.com'') (js ''secret'') (initialState, []))) \<and>
      user (state_after (login memoryPlatform (js ''x@y.com'') (js ''secret'') (initialState, []))) = Some u \<and>
      user_email u = js ''x@y.com'' \<and> user_name u = js ''x'')"
proof -
  have h: "js ''x@y.com'' \<noteq> []" "js ''secret'' \<noteq> []"
    by (simp_all add: js_def)
  then have o: "outcome (login memoryPlatform (js ''x@y.com'') (js ''secret'') (initialState, [])) = Inr ()"
    by (simp add: ops platforms Let_def)
  have t: "takeWhile (\<lambda>c. c \<noteq> at_sign) (js ''x@y.com'') = js ''x''"
    by (simp add: js_def at_sign_def)
  from login_success_persists_session [OF h o] h o show ?thesis
    unfolding t by simp
qed

text \<open>
  Claim C9. \<open>login\<close> checks emptiness only, never the format of the email: with a
  non-empty email of any shape and a non-empty password it throws no error of its own,
  and when the write to the store resolves the user is present afterwards.
\<close>

theorem login_ignores_email_format:
  assumes "email \<noteq> []" and "password \<noteq> []"
  shows "(\<forall>msg. outcome (login P email password (a, s)) \<noteq> Inl (Error msg)) \<and>
         (fst (multiSet P (session_pairs P (mockUser_login P email)) s) = Inr () \<longrightarrow>
            outcome (login P email password (a, s)) = Inr () \<and>
            user (state_after (login P email password (a, s))) \<noteq> None)"
  using assms
  by (auto simp: ops Let_def split: prod.splits sum.splits)

theorem login_ignores_email_format_witness:
  "js ''not an email'' \<noteq> [] \<and> js ''x'' \<noteq> [] \<and> \<not> isValidEmail (js ''not an email'') \<and>
   outcome (login memoryPlatform (js ''not an email'') (js ''x'') (initialState, [])) = Inr () \<and>
   user (state_after (login memoryPlatform (js ''not an email'') (js ''x'') (initialState, []))) \<noteq> None"
proof -
  have h: "js ''not an email'' \<noteq> []" "js ''x'' \<noteq> []"
    by (simp_all add: js_def)
  have v: "\<not> isValidEmail (js ''not an email'')"
    by (simp add: isValidEmail_def emailRegex_def Many1_def js_def not_space_or_at_def
      is_whitespace_def at_sign_def full_stop_def)
  have m: "fst (multiSet memoryPlatform (session_pairs memoryPlatform
             (mockUser_login memoryPlatform (js ''not an email''))) []) = Inr ()"
    by (simp add: platforms)
  from login_ignores_email_format [OF h, of memoryPlatform initialState "[]"] m h v show ?thesis
    by simp
qed

end
